theory Spec2Isabelle
  imports Complex_Main
begin

section \<open>Numbers and vectors\<close>

text \<open>
  The program computes with JavaScript numbers. The fields of a ball and every
  intermediate value are modelled as exact reals: rounding, overflow to an infinity and
  NaN are not part of this model, and a theorem about the methods below is a statement of
  exact arithmetic. The one place where the source itself tests for a non-finite number
  is the \<^verbatim>\<open>mass\<close> argument of the constructor (\<^verbatim>\<open>!isFinite(mass)\<close>) and
  the \<^verbatim>\<open>mass\<close> getter, which returns \<^verbatim>\<open>Infinity\<close>; there a number is a
  value of the type \<open>number\<close>.

  Where a property of exact arithmetic does not survive the rounding of IEEE 754 doubles,
  the method is modelled a second time with every operation rounded
  (\<open>checkCollisions_double\<close> below), and the difference is shown at a concrete ball.
\<close>

datatype number = Num real | Infinity | NegInfinity | NaN

fun isFinite :: "number \<Rightarrow> bool" where
  "isFinite (Num v) = True"
| "isFinite Infinity = False"
| "isFinite NegInfinity = False"
| "isFinite NaN = False"

text \<open>The comparison \<^verbatim>\<open>mass <= 0\<close>: false on NaN, true on \<^verbatim>\<open>-Infinity\<close>.\<close>

fun le_zero :: "number \<Rightarrow> bool" where
  "le_zero (Num v) = (v \<le> 0)"
| "le_zero Infinity = False"
| "le_zero NegInfinity = True"
| "le_zero NaN = False"

text \<open>
  The quotient \<^verbatim>\<open>1 / mass\<close>, as the constructor uses it: only behind the test
  that \<^verbatim>\<open>mass\<close> is finite and positive, where it is a real. The other equations
  give what JavaScript computes when that is a real (\<^verbatim>\<open>1 / Infinity\<close> is 0), and
  \<open>None\<close> where it is not (division by zero, NaN).
\<close>

fun reciprocal :: "number \<Rightarrow> real option" where
  "reciprocal (Num v) = (if v = 0 then None else Some (1 / v))"
| "reciprocal Infinity = Some 0"
| "reciprocal NegInfinity = Some 0"
| "reciprocal NaN = None"

record Vector2 =
  x :: real
  y :: real

record Canvas =
  width :: real
  height :: real

section \<open>The class Ball\<close>

record Ball =
  position :: Vector2
  velocity :: Vector2
  acceleration :: Vector2
  priv_inverseMass :: real
  restitution :: real
  radius :: real

text \<open>
  The constructor. The parameter \<^verbatim>\<open>initialVelocity\<close> is optional and defaults
  to the zero vector; spreading it into a fresh object is a copy, which a value is.
\<close>

definition Ball_new ::
  "real \<Rightarrow> real \<Rightarrow> real \<Rightarrow> number \<Rightarrow> real \<Rightarrow> Vector2 option \<Rightarrow> Ball" where
  "Ball_new px py r m e initialVelocity =
    \<lparr> position = \<lparr> x = px, y = py \<rparr>,
      velocity = (case initialVelocity of None \<Rightarrow> \<lparr> x = 0, y = 0 \<rparr> | Some v \<Rightarrow> v),
      acceleration = \<lparr> x = 0, y = 0 \<rparr>,
      priv_inverseMass =
        (if \<not> isFinite m \<or> le_zero m then 0
         else (case reciprocal m of Some q \<Rightarrow> q | None \<Rightarrow> 0)),
      restitution = e,
      radius = r \<rparr>"

text \<open>The getters \<^verbatim>\<open>mass\<close> and \<^verbatim>\<open>inverseMass\<close>.\<close>

definition mass :: "Ball \<Rightarrow> number" where
  "mass b = (if priv_inverseMass b = 0 then Infinity else Num (1 / priv_inverseMass b))"

definition inverseMass :: "Ball \<Rightarrow> real" where
  "inverseMass b = priv_inverseMass b"

text \<open>Each method mutates the ball; the model returns the ball after the call.\<close>

definition applyForce :: "Vector2 \<Rightarrow> Ball \<Rightarrow> Ball" where
  "applyForce force b =
    (if inverseMass b \<le> 0 then b
     else
       let b1 = b\<lparr>acceleration := (acceleration b)
                  \<lparr>x := x (acceleration b) + x force * priv_inverseMass b\<rparr>\<rparr>;
           b2 = b1\<lparr>acceleration := (acceleration b1)
                  \<lparr>y := y (acceleration b1) + y force * priv_inverseMass b1\<rparr>\<rparr>
       in b2)"

definition applyGravity :: "real \<Rightarrow> Ball \<Rightarrow> Ball" where
  "applyGravity g b =
    (if priv_inverseMass b \<le> 0 then b
     else
       let F = (1 / priv_inverseMass b) * g
       in applyForce \<lparr> x = 0, y = F \<rparr> b)"

definition applyAirResistance :: "real \<Rightarrow> Ball \<Rightarrow> Ball" where
  "applyAirResistance k b =
    (if priv_inverseMass b \<le> 0 then b
     else
       let vx = x (velocity b);
           vy = y (velocity b);
           speed = sqrt (vx * vx + vy * vy)
       in if speed < 0.001 then b
          else
            let dragX = - k * speed * vx;
                dragY = - k * speed * vy
            in applyForce \<lparr> x = dragX, y = dragY \<rparr> b)"

text \<open>
  \<^verbatim>\<open>update(dt)\<close>, statement by statement: the two velocity components, then the
  two position components, which read the velocity just written, then the reset of the
  acceleration.
\<close>

definition update :: "real \<Rightarrow> Ball \<Rightarrow> Ball" where
  "update dt b =
    (if priv_inverseMass b \<le> 0 then b
     else
       let b1 = b\<lparr>velocity := (velocity b)\<lparr>x := x (velocity b) + x (acceleration b) * dt\<rparr>\<rparr>;
           b2 = b1\<lparr>velocity := (velocity b1)\<lparr>y := y (velocity b1) + y (acceleration b1) * dt\<rparr>\<rparr>;
           b3 = b2\<lparr>position := (position b2)\<lparr>x := x (position b2) + x (velocity b2) * dt\<rparr>\<rparr>;
           b4 = b3\<lparr>position := (position b3)\<lparr>y := y (position b3) + y (velocity b3) * dt\<rparr>\<rparr>;
           b5 = b4\<lparr>acceleration := (acceleration b4)\<lparr>x := 0\<rparr>\<rparr>;
           b6 = b5\<lparr>acceleration := (acceleration b5)\<lparr>y := 0\<rparr>\<rparr>
       in b6)"

text \<open>
  \<^verbatim>\<open>checkCollisions(canvas)\<close>: the horizontal pair of tests, then the vertical
  pair; within a pair the second test is the \<^verbatim>\<open>else\<close> branch of the first.
\<close>

definition checkCollisions :: "Canvas \<Rightarrow> Ball \<Rightarrow> Ball" where
  "checkCollisions canvas b =
    (let b1 =
       (if x (position b) - radius b < 0 then
          b\<lparr>position := (position b)\<lparr>x := radius b\<rparr>,
            velocity := (velocity b)\<lparr>x := - x (velocity b) * restitution b\<rparr>\<rparr>
        else if x (position b) + radius b > width canvas then
          b\<lparr>position := (position b)\<lparr>x := width canvas - radius b\<rparr>,
            velocity := (velocity b)\<lparr>x := - x (velocity b) * restitution b\<rparr>\<rparr>
        else b);
         b2 =
       (if y (position b1) - radius b1 < 0 then
          b1\<lparr>position := (position b1)\<lparr>y := radius b1\<rparr>,
             velocity := (velocity b1)\<lparr>y := - y (velocity b1) * restitution b1\<rparr>\<rparr>
        else if y (position b1) + radius b1 > height canvas then
          b1\<lparr>position := (position b1)\<lparr>y := height canvas - radius b1\<rparr>,
             velocity := (velocity b1)\<lparr>y := - y (velocity b1) * restitution b1\<rparr>\<rparr>
        else b1)
     in b2)"

section \<open>Collisions in double arithmetic\<close>

text \<open>
  Rounding to the nearest double (IEEE 754 binary64), ties to even. A real \<open>v\<close> other
  than 0 lies in one binade, \<open>2^k \<le> |v| < 2^(k+1)\<close>; the doubles of that binade are the
  multiples of \<open>2^(k-52)\<close>, and below \<open>2^(-1022)\<close> (the subnormal range) the multiples
  of \<open>2^(-1074)\<close>. Overflow to an infinity, from \<open>2^1024\<close> on, is not modelled.
\<close>

definition ulp_exponent :: "real \<Rightarrow> int" where
  "ulp_exponent v = max \<lfloor>log 2 \<bar>v\<bar>\<rfloor> (- 1022) - 52"

definition round_half_even :: "real \<Rightarrow> int" where
  "round_half_even q =
    (let n = \<lfloor>q\<rfloor>; f = q - of_int n
     in if f < 1 / 2 then n else if 1 / 2 < f then n + 1 else if even n then n else n + 1)"

definition double_round :: "real \<Rightarrow> real" where
  "double_round v =
    (if v = 0 then 0
     else of_int (round_half_even (v / 2 powi ulp_exponent v)) * 2 powi ulp_exponent v)"

text \<open>
  \<^verbatim>\<open>checkCollisions(canvas)\<close> as it runs on doubles: the same tests and assignments,
  with each sum, difference and product rounded. Negation and the comparisons are exact.
  The fields of the ball and of the canvas are taken to hold doubles.
\<close>

definition checkCollisions_double :: "Canvas \<Rightarrow> Ball \<Rightarrow> Ball" where
  "checkCollisions_double canvas b =
    (let b1 =
       (if double_round (x (position b) - radius b) < 0 then
          b\<lparr>position := (position b)\<lparr>x := radius b\<rparr>,
            velocity := (velocity b)\<lparr>x := double_round (- x (velocity b) * restitution b)\<rparr>\<rparr>
        else if double_round (x (position b) + radius b) > width canvas then
          b\<lparr>position := (position b)\<lparr>x := double_round (width canvas - radius b)\<rparr>,
            velocity := (velocity b)\<lparr>x := double_round (- x (velocity b) * restitution b)\<rparr>\<rparr>
        else b);
         b2 =
       (if double_round (y (position b1) - radius b1) < 0 then
          b1\<lparr>position := (position b1)\<lparr>y := radius b1\<rparr>,
             velocity := (velocity b1)\<lparr>y := double_round (- y (velocity b1) * restitution b1)\<rparr>\<rparr>
        else if double_round (y (position b1) + radius b1) > height canvas then
          b1\<lparr>position := (position b1)\<lparr>y := double_round (height canvas - radius b1)\<rparr>,
             velocity := (velocity b1)\<lparr>y := double_round (- y (velocity b1) * restitution b1)\<rparr>\<rparr>
        else b1)
     in b2)"

section \<open>The frame driver\<close>

text \<open>The one ball of the program, as the source constructs it.\<close>

definition initial_ball :: Ball where
  "initial_ball = Ball_new 50 100 50 (Num 5) 0.7 (Some \<lparr> x = 200, y = - 50 \<rparr>)"

definition GRAVITY_FORCE :: real where
  "GRAVITY_FORCE = 600"

definition DRAG_COEFF :: real where
  "DRAG_COEFF = 0.001"

definition FRICTION_COEFF :: real where
  "FRICTION_COEFF = 0.3"

text \<open>
  The ground-friction block of \<^verbatim>\<open>gameLoop\<close>. The getter \<^verbatim>\<open>mass\<close> is read
  only behind \<^verbatim>\<open>ball.inverseMass > 0\<close>, where it returns a real (lemma
  \<open>mass_movable\<close>); the model leaves the ball as it is on the other values of the getter,
  which this branch never sees.
\<close>

definition groundFriction :: "Canvas \<Rightarrow> Ball \<Rightarrow> Ball" where
  "groundFriction canvas b =
    (let isOnGround = (y (position b) + radius b \<ge> height canvas - 0.5)
     in if isOnGround \<and> inverseMass b > 0 then
          (if \<bar>x (velocity b)\<bar> > 0.001 then
             (case mass b of
                Num realMass \<Rightarrow>
                  let frictionForce = FRICTION_COEFF * realMass * GRAVITY_FORCE;
                      signX = sgn (x (velocity b));
                      frictionForceX = - signX * frictionForce
                  in applyForce \<lparr> x = frictionForceX, y = 0 \<rparr> b
              | _ \<Rightarrow> b)
           else b\<lparr>velocity := (velocity b)\<lparr>x := 0\<rparr>\<rparr>)
        else b)"

text \<open>
  The state of the loop is the ball and \<^verbatim>\<open>lastTime\<close>; drawing and the request
  for the next frame do not change it.
\<close>

record Loop =
  ball :: Ball
  lastTime :: real

definition frame_dt :: "real \<Rightarrow> Loop \<Rightarrow> real" where
  "frame_dt timestamp s =
    (let dt = (timestamp - lastTime s) / 1000
     in if dt > 0.05 then 0.05 else dt)"

definition gameLoop :: "Canvas \<Rightarrow> real \<Rightarrow> Loop \<Rightarrow> Loop" where
  "gameLoop canvas timestamp s =
    (let dt = frame_dt timestamp s;
         b1 = applyGravity GRAVITY_FORCE (ball s);
         b2 = applyAirResistance DRAG_COEFF b1;
         b3 = groundFriction canvas b2;
         b4 = update dt b3;
         b5 = checkCollisions canvas b4
     in \<lparr> ball = b5, lastTime = timestamp \<rparr>)"

text \<open>The ball of a frame after gravity and drag, as the friction block meets it.\<close>

abbreviation beforeFriction :: "Ball \<Rightarrow> Ball" where
  "beforeFriction b \<equiv> applyAirResistance DRAG_COEFF (applyGravity GRAVITY_FORCE b)"

section \<open>Balls the methods produce\<close>

text \<open>
  The balls that exist when the fields are written by the class alone: what the
  constructor returns, and what any of its state-changing methods makes of such a ball.
\<close>

inductive produced :: "Ball \<Rightarrow> bool" where
  constructed: "produced (Ball_new px py r m e iv)"
| forced: "produced b \<Longrightarrow> produced (applyForce f b)"
| gravity: "produced b \<Longrightarrow> produced (applyGravity g b)"
| dragged: "produced b \<Longrightarrow> produced (applyAirResistance k b)"
| updated: "produced b \<Longrightarrow> produced (update dt b)"
| collided: "produced b \<Longrightarrow> produced (checkCollisions canvas b)"

section \<open>Concrete states used in the examples\<close>

text \<open>The canvas of the scenario, 800 by 600.\<close>

definition arena :: Canvas where
  "arena = \<lparr> width = 800, height = 600 \<rparr>"

text \<open>A canvas narrower and lower than the ball of radius 50 is wide.\<close>

definition slot :: Canvas where
  "slot = \<lparr> width = 60, height = 60 \<rparr>"

text \<open>The program's ball in the bottom left corner, through both walls, moving down and right.\<close>

definition corner_ball :: Ball where
  "corner_ball =
     initial_ball\<lparr>position := \<lparr> x = - 10, y = 600 \<rparr>, velocity := \<lparr> x = 10, y = 20 \<rparr>\<rparr>"

text \<open>The program's ball through the floor only, away from the side walls.\<close>

definition landing_ball :: Ball where
  "landing_ball =
     initial_ball\<lparr>position := \<lparr> x = 400, y = 560 \<rparr>, velocity := \<lparr> x = 200, y = 300 \<rparr>\<rparr>"

text \<open>The same position, with the ball already moving up (\<open>velocity.y = -50\<close>).\<close>

definition rising_ball :: Ball where
  "rising_ball = initial_ball\<lparr>position := \<lparr> x = 400, y = 560 \<rparr>\<rparr>"

text \<open>
  The program's ball resting on the floor, sliding right at speed 50, and the same ball
  nearly still.
\<close>

definition sliding_ball :: Ball where
  "sliding_ball =
     initial_ball\<lparr>position := \<lparr> x = 50, y = 550 \<rparr>, velocity := \<lparr> x = 30, y = - 40 \<rparr>\<rparr>"

definition creeping_ball :: Ball where
  "creeping_ball = sliding_ball\<lparr>velocity := \<lparr> x = 0.0005, y = 0 \<rparr>\<rparr>"

text \<open>An immovable ball as the constructor returns it.\<close>

definition wall :: Ball where
  "wall = Ball_new 50 100 50 Infinity 0.7 (Some \<lparr> x = 200, y = - 50 \<rparr>)"



text \<open>
  A canvas 520 by 600, and the program's ball one double past contact with its right
  edge: \<open>470 + 2^(-44)\<close> is the double after 470, which JavaScript prints as
  \<^verbatim>\<open>470.00000000000006\<close>.
\<close>

definition hall :: Canvas where
  "hall = \<lparr> width = 520, height = 600 \<rparr>"

definition grazing_ball :: Ball where
  "grazing_ball = initial_ball\<lparr>position := \<lparr> x = 470 + 1 / 2 ^ 44, y = 100 \<rparr>\<rparr>"

section \<open>What each method keeps\<close>

lemma applyForce_immovable: "inverseMass b \<le> 0 \<Longrightarrow> applyForce f b = b"
  by (simp add: applyForce_def)

lemma applyGravity_immovable: "inverseMass b \<le> 0 \<Longrightarrow> applyGravity g b = b"
  by (simp add: applyGravity_def inverseMass_def)

lemma applyAirResistance_immovable: "inverseMass b \<le> 0 \<Longrightarrow> applyAirResistance k b = b"
  by (simp add: applyAirResistance_def inverseMass_def)

lemma update_immovable: "inverseMass b \<le> 0 \<Longrightarrow> update dt b = b"
  by (simp add: update_def inverseMass_def)

lemma applyForce_keeps:
  "position (applyForce f b) = position b"
  "velocity (applyForce f b) = velocity b"
  "inverseMass (applyForce f b) = inverseMass b"
  "radius (applyForce f b) = radius b"
  by (simp_all add: applyForce_def inverseMass_def Let_def)

lemma applyGravity_keeps:
  "position (applyGravity g b) = position b"
  "velocity (applyGravity g b) = velocity b"
  "inverseMass (applyGravity g b) = inverseMass b"
  "radius (applyGravity g b) = radius b"
  by (simp_all add: applyGravity_def applyForce_keeps Let_def)

lemma applyAirResistance_keeps:
  "position (applyAirResistance k b) = position b"
  "velocity (applyAirResistance k b) = velocity b"
  "inverseMass (applyAirResistance k b) = inverseMass b"
  "radius (applyAirResistance k b) = radius b"
  by (simp_all add: applyAirResistance_def applyForce_keeps Let_def)

lemma update_inverseMass: "inverseMass (update dt b) = inverseMass b"
  by (simp add: update_def inverseMass_def Let_def)

lemma update_movable_acceleration:
  "0 < inverseMass b \<Longrightarrow> acceleration (update dt b) = \<lparr> x = 0, y = 0 \<rparr>"
  by (simp add: update_def inverseMass_def Let_def)

lemma update_velocity_x:
  "0 < inverseMass b \<Longrightarrow>
     x (velocity (update dt b)) = x (velocity b) + x (acceleration b) * dt"
  by (simp add: update_def inverseMass_def Let_def)

lemma applyForce_movable:
  "0 < inverseMass b \<Longrightarrow>
     applyForce f b =
       b\<lparr>acceleration :=
          \<lparr> x = x (acceleration b) + x f * inverseMass b,
            y = y (acceleration b) + y f * inverseMass b \<rparr>\<rparr>"
  by (simp add: applyForce_def inverseMass_def Let_def)

lemma checkCollisions_inverseMass: "inverseMass (checkCollisions c b) = inverseMass b"
  by (simp add: checkCollisions_def inverseMass_def Let_def)

lemma checkCollisions_acceleration: "acceleration (checkCollisions c b) = acceleration b"
  by (simp add: checkCollisions_def Let_def)

lemma checkCollisions_radius: "radius (checkCollisions c b) = radius b"
  by (simp add: checkCollisions_def Let_def)

lemma Ball_new_inverseMass:
  "inverseMass (Ball_new px py r m e iv) =
     (case m of Num v \<Rightarrow> if v \<le> 0 then 0 else 1 / v | _ \<Rightarrow> 0)"
  by (cases m) (simp_all add: Ball_new_def inverseMass_def)

text \<open>
  Behind \<^verbatim>\<open>inverseMass > 0\<close> the getter \<^verbatim>\<open>mass\<close> returns a real, so the
  friction block never meets its \<^verbatim>\<open>Infinity\<close>.
\<close>

lemma mass_movable: "0 < inverseMass b \<Longrightarrow> mass b = Num (1 / inverseMass b)"
  by (simp add: mass_def inverseMass_def)

text \<open>
  The class keeps the inverse mass non-negative, and never gives an immovable ball an
  acceleration: the constructor starts it at zero and \<open>applyForce\<close> returns at once.
\<close>

lemma produced_invariant:
  "produced b \<Longrightarrow>
     0 \<le> inverseMass b \<and> (inverseMass b \<le> 0 \<longrightarrow> acceleration b = \<lparr> x = 0, y = 0 \<rparr>)"
proof (induction rule: produced.induct)
  case (constructed px py r m e iv)
  show ?case
    by (cases m) (simp_all add: Ball_new_def inverseMass_def)
next
  case (forced b f)
  then show ?case
    by (cases "inverseMass b \<le> 0") (simp_all add: applyForce_immovable applyForce_keeps)
next
  case (gravity b g)
  then show ?case
    by (cases "inverseMass b \<le> 0") (simp_all add: applyGravity_immovable applyGravity_keeps)
next
  case (dragged b k)
  then show ?case
    by (cases "inverseMass b \<le> 0")
      (simp_all add: applyAirResistance_immovable applyAirResistance_keeps)
next
  case (updated b dt)
  then show ?case
    by (cases "inverseMass b \<le> 0") (simp_all add: update_immovable update_inverseMass)
next
  case (collided b canvas)
  then show ?case
    by (simp add: checkCollisions_inverseMass checkCollisions_acceleration)
qed

section \<open>Integration\<close>

text \<open>
  C1. For a movable ball (\<open>inverseMass > 0\<close>) and every \<open>dt\<close>, \<open>update\<close> is
  semi-implicit Euler: the velocity becomes velocity + acceleration * dt, and the position
  becomes position + (the updated velocity) * dt, so the position step sees the velocity
  already advanced.
\<close>

theorem update_semi_implicit_euler:
  assumes "0 < inverseMass b"
  shows "x (velocity (update dt b)) = x (velocity b) + x (acceleration b) * dt
       \<and> y (velocity (update dt b)) = y (velocity b) + y (acceleration b) * dt
       \<and> x (position (update dt b)) = x (position b) + x (velocity (update dt b)) * dt
       \<and> y (position (update dt b)) = y (position b) + y (velocity (update dt b)) * dt
       \<and> x (position (update dt b)) = x (position b) + (x (velocity b) + x (acceleration b) * dt) * dt
       \<and> y (position (update dt b)) = y (position b) + (y (velocity b) + y (acceleration b) * dt) * dt"
  using assms by (simp add: update_def inverseMass_def Let_def)

theorem update_semi_implicit_euler_witness:
  "0 < inverseMass (applyGravity GRAVITY_FORCE initial_ball)
   \<and> y (velocity (update 0.016 (applyGravity GRAVITY_FORCE initial_ball))) = - 40.4
   \<and> y (position (update 0.016 (applyGravity GRAVITY_FORCE initial_ball))) = 100 - 40.4 * 0.016"
  using update_semi_implicit_euler [of "applyGravity GRAVITY_FORCE initial_ball" "0.016"]
  by (simp add: initial_ball_def Ball_new_def applyGravity_def applyForce_def
      inverseMass_def GRAVITY_FORCE_def Let_def)

text \<open>
  C5. Immediately after \<open>update\<close> the accumulated acceleration is exactly (0,0), for
  every \<open>dt\<close> and however many forces were applied before: for every ball of the class,
  movable or immovable, that is every ball the constructor and the methods produce, and
  for every movable ball whatever its fields hold. On an immovable ball \<open>update\<close>
  returns before the reset, and the accumulator is (0,0) there because \<open>applyForce\<close>
  never wrote to it (\<open>produced_invariant\<close>).
\<close>

theorem update_drains_acceleration:
  assumes "0 < inverseMass b \<or> produced b"
  shows "acceleration (update dt b) = \<lparr> x = 0, y = 0 \<rparr>"
proof (cases "0 < inverseMass b")
  case True
  then show ?thesis by (rule update_movable_acceleration)
next
  case False
  with assms have "produced b" by simp
  with False have "acceleration b = \<lparr> x = 0, y = 0 \<rparr>"
    using produced_invariant [of b] by simp
  with False show ?thesis by (simp add: update_immovable)
qed

theorem update_drains_acceleration_witness:
  "0 < inverseMass (applyGravity GRAVITY_FORCE initial_ball)
   \<and> acceleration (applyGravity GRAVITY_FORCE initial_ball) = \<lparr> x = 0, y = 600 \<rparr>
   \<and> acceleration (update 0.016 (applyGravity GRAVITY_FORCE initial_ball)) = \<lparr> x = 0, y = 0 \<rparr>
   \<and> produced (applyGravity GRAVITY_FORCE wall)
   \<and> acceleration (update 0.016 (applyGravity GRAVITY_FORCE wall)) = \<lparr> x = 0, y = 0 \<rparr>"
proof -
  have movable: "0 < inverseMass (applyGravity GRAVITY_FORCE initial_ball)"
    by (simp add: applyGravity_keeps initial_ball_def Ball_new_inverseMass)
  have acc: "acceleration (applyGravity GRAVITY_FORCE initial_ball) = \<lparr> x = 0, y = 600 \<rparr>"
    by (simp add: initial_ball_def Ball_new_def applyGravity_def applyForce_def
        inverseMass_def GRAVITY_FORCE_def Let_def)
  have made: "produced (applyGravity GRAVITY_FORCE wall)"
    unfolding wall_def by (intro produced.gravity produced.constructed)
  from movable have h1: "0 < inverseMass (applyGravity GRAVITY_FORCE initial_ball)
      \<or> produced (applyGravity GRAVITY_FORCE initial_ball)" by simp
  from made have h2: "0 < inverseMass (applyGravity GRAVITY_FORCE wall)
      \<or> produced (applyGravity GRAVITY_FORCE wall)" by simp
  show ?thesis
    using movable acc made
      update_drains_acceleration [OF h1, of "0.016"]
      update_drains_acceleration [OF h2, of "0.016"]
    by simp
qed

section \<open>Immovable balls\<close>

text \<open>
  C4. The constructor gives inverse mass 0 for mass 0, mass -5 and mass Infinity; and on
  every ball of inverse mass 0 each of \<open>applyForce\<close>, \<open>applyGravity\<close> and \<open>update\<close>
  leaves position and velocity as they were, and the ball immovable, so the same holds of
  every later call.
\<close>

theorem immovable_ball_stays:
  "inverseMass (Ball_new px py r (Num 0) e iv) = 0
 \<and> inverseMass (Ball_new px py r (Num (- 5)) e iv) = 0
 \<and> inverseMass (Ball_new px py r Infinity e iv) = 0
 \<and> (inverseMass b = 0 \<longrightarrow>
       position (applyForce f b) = position b \<and> velocity (applyForce f b) = velocity b
     \<and> inverseMass (applyForce f b) = 0
     \<and> position (applyGravity g b) = position b \<and> velocity (applyGravity g b) = velocity b
     \<and> inverseMass (applyGravity g b) = 0
     \<and> position (update dt b) = position b \<and> velocity (update dt b) = velocity b
     \<and> inverseMass (update dt b) = 0)"
  by (simp add: Ball_new_inverseMass applyForce_immovable applyGravity_immovable
      update_immovable)

theorem immovable_ball_stays_witness:
  "inverseMass wall = 0
   \<and> position (update 0.016 wall) = \<lparr> x = 50, y = 100 \<rparr>
   \<and> velocity (update 0.016 wall) = \<lparr> x = 200, y = - 50 \<rparr>
   \<and> velocity (applyGravity 600 wall) = \<lparr> x = 200, y = - 50 \<rparr>
   \<and> velocity (applyForce \<lparr> x = 1, y = 1 \<rparr> wall) = \<lparr> x = 200, y = - 50 \<rparr>"
  using immovable_ball_stays [of 50 100 50 "0.7" "Some \<lparr> x = 200, y = - 50 \<rparr>"
      wall "\<lparr> x = 1, y = 1 \<rparr>" 600 "0.016"]
  by (simp add: wall_def Ball_new_def)

section \<open>Gravity\<close>

text \<open>
  C8. On a movable ball \<open>applyGravity g\<close> adds exactly \<open>g\<close> to the vertical accumulated
  acceleration and leaves the horizontal one as it was, whatever the mass: the force
  \<open>(1 / inverseMass) * g\<close> times \<open>inverseMass\<close> is \<open>g\<close>.
\<close>

theorem applyGravity_adds_g:
  assumes "0 < inverseMass b"
  shows "y (acceleration (applyGravity g b)) = y (acceleration b) + g
       \<and> x (acceleration (applyGravity g b)) = x (acceleration b)"
  using assms by (simp add: applyGravity_def applyForce_def inverseMass_def Let_def)

theorem applyGravity_adds_g_witness:
  "0 < inverseMass initial_ball
   \<and> y (acceleration (applyGravity 600 initial_ball)) = 600
   \<and> x (acceleration (applyGravity 600 initial_ball)) = 0"
proof -
  have h: "0 < inverseMass initial_ball"
    by (simp add: initial_ball_def Ball_new_inverseMass)
  show ?thesis
    using h applyGravity_adds_g [OF h, of 600]
    by (simp add: initial_ball_def Ball_new_def)
qed

section \<open>Collisions with the boundary\<close>

text \<open>What \<open>checkCollisions\<close> leaves in each component of position and velocity.\<close>

lemma checkCollisions_position_x:
  "x (position (checkCollisions c b)) =
     (if x (position b) - radius b < 0 then radius b
      else if x (position b) + radius b > width c then width c - radius b
      else x (position b))"
  by (simp add: checkCollisions_def Let_def)

lemma checkCollisions_position_y:
  "y (position (checkCollisions c b)) =
     (if y (position b) - radius b < 0 then radius b
      else if y (position b) + radius b > height c then height c - radius b
      else y (position b))"
  by (simp add: checkCollisions_def Let_def)

lemma checkCollisions_velocity_x:
  "x (velocity (checkCollisions c b)) =
     (if x (position b) - radius b < 0 \<or> x (position b) + radius b > width c
      then - x (velocity b) * restitution b else x (velocity b))"
  by (simp add: checkCollisions_def Let_def)

lemma checkCollisions_velocity_y:
  "y (velocity (checkCollisions c b)) =
     (if y (position b) - radius b < 0 \<or> y (position b) + radius b > height c
      then - y (velocity b) * restitution b else y (velocity b))"
  by (simp add: checkCollisions_def Let_def)


text \<open>
  C2, as the code has it. The two axes are resolved independently. A ball through the
  bottom boundary (\<open>position.y + radius > height\<close>) with downward speed \<open>v > 0\<close> leaves
  \<open>checkCollisions\<close> with upward speed exactly \<open>v * restitution\<close>, that is with
  \<open>velocity.y = - (v * restitution)\<close>; and \<open>velocity.x\<close> is unchanged when the ball is
  not also through the left or the right boundary.
\<close>

theorem bottom_bounce:
  assumes "y (position b) + radius b > height c" and "0 < y (velocity b)"
  shows "y (velocity (checkCollisions c b)) = - (y (velocity b) * restitution b)
       \<and> (0 \<le> x (position b) - radius b \<and> x (position b) + radius b \<le> width c
            \<longrightarrow> x (velocity (checkCollisions c b)) = x (velocity b))"
  using assms by (simp add: checkCollisions_velocity_x checkCollisions_velocity_y)

theorem bottom_bounce_witness:
  "y (position landing_ball) + radius landing_ball > height arena
   \<and> 0 < y (velocity landing_ball)
   \<and> 0 \<le> x (position landing_ball) - radius landing_ball
   \<and> x (position landing_ball) + radius landing_ball \<le> width arena
   \<and> y (velocity (checkCollisions arena landing_ball)) = - 210
   \<and> x (velocity (checkCollisions arena landing_ball)) = 200"
proof -
  have h1: "y (position landing_ball) + radius landing_ball > height arena"
    by (simp add: landing_ball_def initial_ball_def Ball_new_def arena_def)
  have h2: "0 < y (velocity landing_ball)"
    by (simp add: landing_ball_def)
  show ?thesis
    using h1 h2 bottom_bounce [OF h1 h2]
    by (simp add: landing_ball_def initial_ball_def Ball_new_def arena_def)
qed

theorem corner_bounce_changes_velocity_x:
  "y (position corner_ball) + radius corner_ball > height arena
   \<and> 0 < y (velocity corner_ball)
   \<and> x (velocity corner_ball) = 10
   \<and> x (velocity (checkCollisions arena corner_ball)) = - 7
   \<and> x (velocity (checkCollisions arena corner_ball)) \<noteq> x (velocity corner_ball)"
  by (simp add: corner_ball_def initial_ball_def Ball_new_def arena_def
      checkCollisions_velocity_x)

text \<open>
  C3, as the code has it, in exact arithmetic. When the ball fits inside the boundary
  (\<open>2 * radius \<le> width\<close> and \<open>2 * radius \<le> height\<close>), then after one call of
  \<open>checkCollisions\<close>, from any position, its whole extent lies inside:
  \<open>radius \<le> position.x \<le> width - radius\<close> and \<open>radius \<le> position.y \<le> height - radius\<close>.
  The fit is needed (the ball of radius 50 in a canvas 60 wide, below), and so is exact
  arithmetic: on doubles the right and bottom tests compare the rounded
  \<open>position + radius\<close>, and a ball one double past contact is left where it is
  (\<open>contact_missed_by_rounding\<close>).
\<close>

theorem checkCollisions_clamps_position:
  assumes "2 * radius b \<le> width c" and "2 * radius b \<le> height c"
  shows "radius (checkCollisions c b) \<le> x (position (checkCollisions c b))
       \<and> x (position (checkCollisions c b)) \<le> width c - radius (checkCollisions c b)
       \<and> radius (checkCollisions c b) \<le> y (position (checkCollisions c b))
       \<and> y (position (checkCollisions c b)) \<le> height c - radius (checkCollisions c b)"
  using assms
  by (simp add: checkCollisions_position_x checkCollisions_position_y checkCollisions_radius)

theorem checkCollisions_clamps_position_witness:
  "2 * radius (initial_ball\<lparr>position := \<lparr> x = 900, y = - 20 \<rparr>\<rparr>) \<le> width arena
   \<and> 2 * radius (initial_ball\<lparr>position := \<lparr> x = 900, y = - 20 \<rparr>\<rparr>) \<le> height arena
   \<and> position (checkCollisions arena (initial_ball\<lparr>position := \<lparr> x = 900, y = - 20 \<rparr>\<rparr>))
       = \<lparr> x = 750, y = 50 \<rparr>
   \<and> 50 \<le> x (position (checkCollisions arena (initial_ball\<lparr>position := \<lparr> x = 900, y = - 20 \<rparr>\<rparr>)))
   \<and> x (position (checkCollisions arena (initial_ball\<lparr>position := \<lparr> x = 900, y = - 20 \<rparr>\<rparr>)))
       \<le> 800 - 50"
proof -
  have h1: "2 * radius (initial_ball\<lparr>position := \<lparr> x = 900, y = - 20 \<rparr>\<rparr>) \<le> width arena"
    by (simp add: initial_ball_def Ball_new_def arena_def)
  have h2: "2 * radius (initial_ball\<lparr>position := \<lparr> x = 900, y = - 20 \<rparr>\<rparr>) \<le> height arena"
    by (simp add: initial_ball_def Ball_new_def arena_def)
  show ?thesis
    using h1 h2 checkCollisions_clamps_position [OF h1 h2]
    by (simp add: initial_ball_def Ball_new_def arena_def checkCollisions_def Let_def)
qed

theorem wide_ball_sticks_out:
  "x (position (checkCollisions slot initial_ball)) = 10
   \<and> radius (checkCollisions slot initial_ball) = 50
   \<and> \<not> (radius (checkCollisions slot initial_ball)
            \<le> x (position (checkCollisions slot initial_ball))
        \<and> x (position (checkCollisions slot initial_ball))
            \<le> width slot - radius (checkCollisions slot initial_ball)
        \<and> radius (checkCollisions slot initial_ball)
            \<le> y (position (checkCollisions slot initial_ball))
        \<and> y (position (checkCollisions slot initial_ball))
            \<le> height slot - radius (checkCollisions slot initial_ball))"
  by (simp add: initial_ball_def Ball_new_def slot_def checkCollisions_position_x
      checkCollisions_radius)

text \<open>
  C6. In one call of \<open>checkCollisions\<close> each axis is corrected at most once: a component
  of the position is left alone, set to \<open>radius\<close>, or set to the far edge minus
  \<open>radius\<close>, and the velocity component is reflected exactly with the latter two. When
  the ball is through both boundaries of an axis, the left (top) correction is the one
  made: the position is \<open>radius\<close>, not the right (bottom) contact position, and the
  velocity is reflected once.
\<close>

theorem one_boundary_per_axis:
  "(x (position b) - radius b < 0 \<and> x (position b) + radius b > width c \<longrightarrow>
      x (position (checkCollisions c b)) = radius b
    \<and> x (position (checkCollisions c b)) \<noteq> width c - radius b
    \<and> x (velocity (checkCollisions c b)) = - x (velocity b) * restitution b)
 \<and> (y (position b) - radius b < 0 \<and> y (position b) + radius b > height c \<longrightarrow>
      y (position (checkCollisions c b)) = radius b
    \<and> y (position (checkCollisions c b)) \<noteq> height c - radius b
    \<and> y (velocity (checkCollisions c b)) = - y (velocity b) * restitution b)
 \<and> ((x (position (checkCollisions c b)) = x (position b)
        \<and> x (velocity (checkCollisions c b)) = x (velocity b))
    \<or> (x (position (checkCollisions c b)) = radius b
        \<and> x (velocity (checkCollisions c b)) = - x (velocity b) * restitution b)
    \<or> (x (position (checkCollisions c b)) = width c - radius b
        \<and> x (velocity (checkCollisions c b)) = - x (velocity b) * restitution b))
 \<and> ((y (position (checkCollisions c b)) = y (position b)
        \<and> y (velocity (checkCollisions c b)) = y (velocity b))
    \<or> (y (position (checkCollisions c b)) = radius b
        \<and> y (velocity (checkCollisions c b)) = - y (velocity b) * restitution b)
    \<or> (y (position (checkCollisions c b)) = height c - radius b
        \<and> y (velocity (checkCollisions c b)) = - y (velocity b) * restitution b))"
  by (simp add: checkCollisions_position_x checkCollisions_position_y
      checkCollisions_velocity_x checkCollisions_velocity_y)

theorem one_boundary_per_axis_witness:
  "x (position (initial_ball\<lparr>position := \<lparr> x = 30, y = 30 \<rparr>\<rparr>)) - 50 < 0
   \<and> x (position (initial_ball\<lparr>position := \<lparr> x = 30, y = 30 \<rparr>\<rparr>)) + 50 > width slot
   \<and> y (position (initial_ball\<lparr>position := \<lparr> x = 30, y = 30 \<rparr>\<rparr>)) - 50 < 0
   \<and> y (position (initial_ball\<lparr>position := \<lparr> x = 30, y = 30 \<rparr>\<rparr>)) + 50 > height slot
   \<and> position (checkCollisions slot (initial_ball\<lparr>position := \<lparr> x = 30, y = 30 \<rparr>\<rparr>))
       = \<lparr> x = 50, y = 50 \<rparr>
   \<and> velocity (checkCollisions slot (initial_ball\<lparr>position := \<lparr> x = 30, y = 30 \<rparr>\<rparr>))
       = \<lparr> x = - 140, y = 35 \<rparr>"
  using one_boundary_per_axis [of "initial_ball\<lparr>position := \<lparr> x = 30, y = 30 \<rparr>\<rparr>" slot]
  by (simp add: initial_ball_def Ball_new_def slot_def checkCollisions_def Let_def)



text \<open>
  C10. \<open>checkCollisions\<close> reflects by position alone. For every ball with
  \<open>position.y + radius > height\<close> and \<open>position.y - radius \<ge> 0\<close> the call sets
  \<open>velocity.y\<close> to \<open>- velocity.y * restitution\<close>, whatever the sign of \<open>velocity.y\<close>:
  a ball already moving up, away from the bottom wall, is sent back down.
\<close>

theorem bottom_reflects_by_position:
  assumes "y (position b) + radius b > height c" and "0 \<le> y (position b) - radius b"
  shows "y (velocity (checkCollisions c b)) = - y (velocity b) * restitution b"
  using assms by (simp add: checkCollisions_velocity_y)

theorem bottom_reflects_by_position_witness:
  "y (position rising_ball) + radius rising_ball > height arena
   \<and> 0 \<le> y (position rising_ball) - radius rising_ball
   \<and> y (velocity rising_ball) = - 50
   \<and> y (velocity (checkCollisions arena rising_ball)) = 35"
proof -
  have h1: "y (position rising_ball) + radius rising_ball > height arena"
    by (simp add: rising_ball_def initial_ball_def Ball_new_def arena_def)
  have h2: "0 \<le> y (position rising_ball) - radius rising_ball"
    by (simp add: rising_ball_def initial_ball_def Ball_new_def)
  show ?thesis
    using h1 h2 bottom_reflects_by_position [OF h1 h2]
    by (simp add: rising_ball_def initial_ball_def Ball_new_def arena_def)
qed

section \<open>The contact position on doubles\<close>

text \<open>
  Rounding a value of a known binade: the quotient by the spacing of the doubles there,
  rounded to an integer, times that spacing.
\<close>

lemma double_round_binade:
  assumes "2 powi k \<le> \<bar>v\<bar>" and "\<bar>v\<bar> < 2 powi (k + 1)" and "- 1022 \<le> k"
  shows "double_round v = of_int (round_half_even (v / 2 powi (k - 52))) * 2 powi (k - 52)"
proof -
  have "(0::real) < 2 powi k"
    by (rule zero_less_power_int) simp
  with assms(1) have pos: "0 < \<bar>v\<bar>"
    by linarith
  have lo: "2 powr real_of_int k = 2 powi k"
    by (rule powr_real_of_int') simp_all
  have hi: "2 powr real_of_int (k + 1) = 2 powi (k + 1)"
    by (rule powr_real_of_int') simp_all
  have "(\<lfloor>log 2 \<bar>v\<bar>\<rfloor> = k)
      = (2 powr real_of_int k \<le> \<bar>v\<bar> \<and> \<bar>v\<bar> < 2 powr real_of_int (k + 1))"
    by (rule floor_log_eq_powr_iff) (use pos in simp_all)
  with assms(1,2) have "\<lfloor>log 2 \<bar>v\<bar>\<rfloor> = k"
    by (simp only: lo hi)
  then have "ulp_exponent v = k - 52"
    using assms(3) by (simp add: ulp_exponent_def)
  moreover have "v \<noteq> 0"
    using pos by simp
  ultimately show ?thesis
    by (simp add: double_round_def)
qed

text \<open>The roundings that the two examples below go through, each by the lemma above.\<close>










text \<open>\<^verbatim>\<open>470.00000000000006 - 50\<close>, exact.\<close>

lemma double_grazing_minus_50:
  "double_round (7388718138654721 / 17592186044416) = 7388718138654721 / 17592186044416"
  using double_round_binade [of "8" "7388718138654721 / 17592186044416"]
  by (simp add: round_half_even_def Let_def power_int_minus)

text \<open>\<^verbatim>\<open>470.00000000000006 + 50\<close>, halfway between 520 and the next double, rounded to 520.\<close>

lemma double_grazing_plus_50:
  "double_round (9147936743096321 / 17592186044416) = 520"
  using double_round_binade [of "9" "9147936743096321 / 17592186044416"]
  by (simp add: round_half_even_def Let_def power_int_minus)

text \<open>\<^verbatim>\<open>100 - 50\<close>.\<close>

lemma double_50:
  "double_round (50) = 50"
  using double_round_binade [of "5" "50"]
  by (simp add: round_half_even_def Let_def power_int_minus)

text \<open>\<^verbatim>\<open>100 + 50\<close>.\<close>

lemma double_150:
  "double_round (150) = 150"
  using double_round_binade [of "7" "150"]
  by (simp add: round_half_even_def Let_def power_int_minus)

text \<open>
  On doubles a ball that fits can stay past contact. The ball of radius 50 at
  \<open>x = 470.00000000000006\<close> in a canvas of width 520 has \<open>x + 50\<close> rounded to 520,
  the test \<open>> 520\<close> fails, and the call changes nothing, although
  \<open>x > width - radius\<close>. In exact arithmetic the same call moves the ball to 470.
\<close>

lemma contact_missed_by_rounding:
  "2 * radius grazing_ball \<le> width hall
   \<and> 2 * radius grazing_ball \<le> height hall
   \<and> checkCollisions_double hall grazing_ball = grazing_ball
   \<and> \<not> x (position (checkCollisions_double hall grazing_ball))
          \<le> width hall - radius (checkCollisions_double hall grazing_ball)
   \<and> x (position (checkCollisions hall grazing_ball)) = 470"
  by (simp add: checkCollisions_double_def checkCollisions_def grazing_ball_def hall_def
      initial_ball_def Ball_new_def Let_def
      double_grazing_minus_50 double_grazing_plus_50 double_50 double_150)




section \<open>Ground friction in the frame driver\<close>

lemma groundFriction_sliding:
  assumes "0 < inverseMass b" and "height c - 0.5 \<le> y (position b) + radius b"
    and "0.001 < \<bar>x (velocity b)\<bar>"
  shows "groundFriction c b =
     applyForce
       \<lparr> x = - sgn (x (velocity b)) * (FRICTION_COEFF * (1 / inverseMass b) * GRAVITY_FORCE),
         y = 0 \<rparr> b"
  using assms by (simp add: groundFriction_def mass_movable Let_def)

lemma groundFriction_resting:
  assumes "0 < inverseMass b" and "height c - 0.5 \<le> y (position b) + radius b"
    and "\<not> 0.001 < \<bar>x (velocity b)\<bar>"
  shows "groundFriction c b = b\<lparr>velocity := (velocity b)\<lparr>x := 0\<rparr>\<rparr>"
  using assms by (simp add: groundFriction_def Let_def)

text \<open>The order of the calls in one frame.\<close>

lemma gameLoop_ball:
  "ball (gameLoop c t s) =
     checkCollisions c (update (frame_dt t s)
       (groundFriction c (applyAirResistance DRAG_COEFF (applyGravity GRAVITY_FORCE (ball s)))))"
  by (simp add: gameLoop_def Let_def)

lemma opposing_force:
  fixes v K :: real
  assumes "0 < K" and "v \<noteq> 0"
  shows "\<bar>- sgn v * K\<bar> = K" and "sgn (- sgn v * K) = - sgn v"
proof -
  have "\<bar>- sgn v * K\<bar> = \<bar>sgn v\<bar> * \<bar>K\<bar>" by (simp add: abs_mult)
  also have "\<dots> = K" using assms by (simp add: abs_sgn_eq)
  finally show "\<bar>- sgn v * K\<bar> = K" .
  have "sgn (- sgn v * K) = - (sgn (sgn v) * sgn K)" by (simp add: sgn_mult)
  also have "\<dots> = - sgn v" using assms(1) by simp
  finally show "sgn (- sgn v * K) = - sgn v" .
qed

lemma friction_force:
  fixes v m :: real
  assumes "0 < m" and "0.001 < \<bar>v\<bar>"
  shows "\<bar>- sgn v * (FRICTION_COEFF * m * GRAVITY_FORCE)\<bar> = FRICTION_COEFF * m * GRAVITY_FORCE"
    and "sgn (- sgn v * (FRICTION_COEFF * m * GRAVITY_FORCE)) = - sgn v"
proof -
  have v0: "v \<noteq> 0" using assms(2) by auto
  have pos: "0 < FRICTION_COEFF * m * GRAVITY_FORCE"
    using assms(1) by (simp add: FRICTION_COEFF_def GRAVITY_FORCE_def)
  show "\<bar>- sgn v * (FRICTION_COEFF * m * GRAVITY_FORCE)\<bar> = FRICTION_COEFF * m * GRAVITY_FORCE"
    by (rule opposing_force(1) [OF pos v0])
  show "sgn (- sgn v * (FRICTION_COEFF * m * GRAVITY_FORCE)) = - sgn v"
    by (rule opposing_force(2) [OF pos v0])
qed

text \<open>The speeds of the two example balls, and what gravity and drag accumulate on them.\<close>

lemma speed_sliding: "sqrt 2500 = 50"
  by (rule real_sqrt_unique) simp_all

lemma speed_creeping: "sqrt (1 / 4000000) = 1 / 2000"
  by (rule real_sqrt_unique) (simp_all add: power2_eq_square)

lemma before_sliding:
  "acceleration (beforeFriction sliding_ball) = \<lparr> x = - 0.3, y = 600.4 \<rparr>"
  by (simp add: applyAirResistance_def applyGravity_def applyForce_def inverseMass_def
      sliding_ball_def initial_ball_def Ball_new_def DRAG_COEFF_def GRAVITY_FORCE_def Let_def
      speed_sliding)

lemma before_creeping:
  "acceleration (beforeFriction creeping_ball) = \<lparr> x = 0, y = 600 \<rparr>"
  by (simp add: applyAirResistance_def applyGravity_def applyForce_def inverseMass_def
      creeping_ball_def sliding_ball_def initial_ball_def Ball_new_def DRAG_COEFF_def GRAVITY_FORCE_def Let_def
      speed_creeping)


text \<open>
  C7. Take a frame whose ball is movable and has its lower extent within 0.5 of the bottom
  edge or below (\<open>position.y + radius \<ge> height - 0.5\<close>, read before integration), and
  write \<open>m\<close> for its mass \<open>1 / inverseMass\<close>. If \<open>|velocity.x| > 0.001\<close>, the frame
  calls \<open>applyForce\<close> with a horizontal force of magnitude
  \<open>FRICTION_COEFF * m * GRAVITY_FORCE\<close> and of sign opposite to \<open>velocity.x\<close>, after
  gravity and drag and before \<open>update\<close>: the horizontal accumulated acceleration grows
  by the force times \<open>inverseMass\<close>, that is by
  \<open>- sgn velocity.x * FRICTION_COEFF * GRAVITY_FORCE\<close>, the vertical one and the
  velocity stay, and \<open>update\<close> integrates the sum. Otherwise the frame sets
  \<open>velocity.x\<close> to exactly 0, before \<open>update\<close>, and adds nothing to the accumulator.
\<close>

theorem ground_friction_policy:
  assumes movable: "0 < inverseMass (ball s)"
    and onGround: "height c - 0.5 \<le> y (position (ball s)) + radius (ball s)"
  shows "(0.001 < \<bar>x (velocity (ball s))\<bar> \<longrightarrow>
            mass (ball s) = Num (1 / inverseMass (ball s))
          \<and> ball (gameLoop c t s) =
              checkCollisions c (update (frame_dt t s)
                (applyForce
                   \<lparr> x = - sgn (x (velocity (ball s)))
                         * (FRICTION_COEFF * (1 / inverseMass (ball s)) * GRAVITY_FORCE),
                     y = 0 \<rparr>
                   (applyAirResistance DRAG_COEFF (applyGravity GRAVITY_FORCE (ball s)))))
          \<and> \<bar>- sgn (x (velocity (ball s)))
                 * (FRICTION_COEFF * (1 / inverseMass (ball s)) * GRAVITY_FORCE)\<bar>
              = FRICTION_COEFF * (1 / inverseMass (ball s)) * GRAVITY_FORCE
          \<and> sgn (- sgn (x (velocity (ball s)))
                 * (FRICTION_COEFF * (1 / inverseMass (ball s)) * GRAVITY_FORCE))
              = - sgn (x (velocity (ball s)))
          \<and> x (acceleration (groundFriction c (beforeFriction (ball s))))
              = x (acceleration (beforeFriction (ball s)))
                + (- sgn (x (velocity (ball s)))
                     * (FRICTION_COEFF * (1 / inverseMass (ball s)) * GRAVITY_FORCE))
                  * inverseMass (ball s)
          \<and> x (acceleration (groundFriction c (beforeFriction (ball s))))
              = x (acceleration (beforeFriction (ball s)))
                - sgn (x (velocity (ball s))) * (FRICTION_COEFF * GRAVITY_FORCE)
          \<and> y (acceleration (groundFriction c (beforeFriction (ball s))))
              = y (acceleration (beforeFriction (ball s)))
          \<and> velocity (groundFriction c (beforeFriction (ball s))) = velocity (ball s)
          \<and> position (groundFriction c (beforeFriction (ball s))) = position (ball s)
          \<and> x (velocity (update (frame_dt t s) (groundFriction c (beforeFriction (ball s)))))
              = x (velocity (ball s))
                + (x (acceleration (beforeFriction (ball s)))
                   - sgn (x (velocity (ball s))) * (FRICTION_COEFF * GRAVITY_FORCE))
                  * frame_dt t s)
       \<and> (\<not> 0.001 < \<bar>x (velocity (ball s))\<bar> \<longrightarrow>
            x (velocity (groundFriction c
                 (applyAirResistance DRAG_COEFF (applyGravity GRAVITY_FORCE (ball s))))) = 0
          \<and> ball (gameLoop c t s) =
              checkCollisions c (update (frame_dt t s)
                ((applyAirResistance DRAG_COEFF (applyGravity GRAVITY_FORCE (ball s)))
                   \<lparr>velocity := (velocity (ball s))\<lparr>x := 0\<rparr>\<rparr>))
          \<and> y (velocity (groundFriction c (beforeFriction (ball s)))) = y (velocity (ball s))
          \<and> acceleration (groundFriction c (beforeFriction (ball s)))
              = acceleration (beforeFriction (ball s))
          \<and> position (groundFriction c (beforeFriction (ball s))) = position (ball s))
       \<and> ball (gameLoop c t s) =
           checkCollisions c (update (frame_dt t s)
             (groundFriction c (beforeFriction (ball s))))"
proof -
  let ?b2 = "beforeFriction (ball s)"
  let ?F = "- sgn (x (velocity (ball s)))
              * (FRICTION_COEFF * (1 / inverseMass (ball s)) * GRAVITY_FORCE)"
  have mv: "0 < inverseMass ?b2"
    using movable by (simp add: applyAirResistance_keeps applyGravity_keeps)
  have og: "height c - 0.5 \<le> y (position ?b2) + radius ?b2"
    using onGround by (simp add: applyAirResistance_keeps applyGravity_keeps)
  have vel: "velocity ?b2 = velocity (ball s)"
    by (simp add: applyAirResistance_keeps applyGravity_keeps)
  have pos: "position ?b2 = position (ball s)"
    by (simp add: applyAirResistance_keeps applyGravity_keeps)
  have inv: "inverseMass ?b2 = inverseMass (ball s)"
    by (simp add: applyAirResistance_keeps applyGravity_keeps)
  have minv: "0 < 1 / inverseMass (ball s)"
    using movable by simp
  have order: "ball (gameLoop c t s) =
      checkCollisions c (update (frame_dt t s) (groundFriction c ?b2))"
    by (rule gameLoop_ball)
  show ?thesis
  proof (cases "0.001 < \<bar>x (velocity (ball s))\<bar>")
    case True
    then have "0.001 < \<bar>x (velocity ?b2)\<bar>"
      by (simp add: vel)
    from groundFriction_sliding [OF mv og this]
    have gf: "groundFriction c ?b2 = applyForce \<lparr> x = ?F, y = 0 \<rparr> ?b2"
      by (simp add: vel inv)
    have pushed: "applyForce \<lparr> x = ?F, y = 0 \<rparr> ?b2 =
        ?b2\<lparr>acceleration :=
          \<lparr> x = x (acceleration ?b2) + ?F * inverseMass (ball s),
            y = y (acceleration ?b2) \<rparr>\<rparr>"
      using applyForce_movable [OF mv, of "\<lparr> x = ?F, y = 0 \<rparr>"] by (simp add: inv)
    have cancel: "?F * inverseMass (ball s)
        = - sgn (x (velocity (ball s))) * (FRICTION_COEFF * GRAVITY_FORCE)"
      using movable by simp
    have accx: "x (acceleration (groundFriction c ?b2))
        = x (acceleration ?b2) + ?F * inverseMass (ball s)"
      by (simp only: gf pushed) simp
    have accx': "x (acceleration (groundFriction c ?b2))
        = x (acceleration ?b2) - sgn (x (velocity (ball s))) * (FRICTION_COEFF * GRAVITY_FORCE)"
      by (simp only: accx cancel)
    have accy: "y (acceleration (groundFriction c ?b2)) = y (acceleration ?b2)"
      by (simp only: gf pushed) simp
    have velf: "velocity (groundFriction c ?b2) = velocity (ball s)"
      by (simp only: gf pushed) (simp add: vel)
    have posf: "position (groundFriction c ?b2) = position (ball s)"
      by (simp only: gf pushed) (simp add: pos)
    have mvf: "0 < inverseMass (groundFriction c ?b2)"
      by (simp only: gf applyForce_keeps mv)
    have integrated: "x (velocity (update (frame_dt t s) (groundFriction c ?b2)))
        = x (velocity (ball s))
          + (x (acceleration ?b2)
             - sgn (x (velocity (ball s))) * (FRICTION_COEFF * GRAVITY_FORCE))
            * frame_dt t s"
      using update_velocity_x [OF mvf, of "frame_dt t s"] by (simp only: velf accx')
    have frame: "ball (gameLoop c t s) =
        checkCollisions c (update (frame_dt t s) (applyForce \<lparr> x = ?F, y = 0 \<rparr> ?b2))"
      by (simp only: order gf)
    from True mass_movable [OF movable] frame friction_force [OF minv True]
      accx accx' accy velf posf integrated order
    show ?thesis
      by (intro conjI impI) (simp_all only: not_True_eq_False)
  next
    case False
    then have "\<not> 0.001 < \<bar>x (velocity ?b2)\<bar>"
      by (simp add: vel)
    from groundFriction_resting [OF mv og this]
    have gf: "groundFriction c ?b2 = ?b2\<lparr>velocity := (velocity (ball s))\<lparr>x := 0\<rparr>\<rparr>"
      by (simp add: vel)
    have frame: "ball (gameLoop c t s) =
        checkCollisions c (update (frame_dt t s)
          (?b2\<lparr>velocity := (velocity (ball s))\<lparr>x := 0\<rparr>\<rparr>))"
      by (simp only: order gf)
    have stopped: "x (velocity (groundFriction c ?b2)) = 0"
      "y (velocity (groundFriction c ?b2)) = y (velocity (ball s))"
      "acceleration (groundFriction c ?b2) = acceleration ?b2"
      "position (groundFriction c ?b2) = position (ball s)"
      by (simp_all add: gf pos)
    from False frame stopped order show ?thesis
      by (intro conjI impI) (simp_all only: not_True_eq_False)
  qed
qed

theorem ground_friction_policy_witness:
  "0 < inverseMass sliding_ball
   \<and> height arena - 0.5 \<le> y (position sliding_ball) + radius sliding_ball
   \<and> 0.001 < \<bar>x (velocity sliding_ball)\<bar>
   \<and> mass sliding_ball = Num 5
   \<and> acceleration (beforeFriction sliding_ball) = \<lparr> x = - 0.3, y = 600.4 \<rparr>
   \<and> x (acceleration (groundFriction arena (beforeFriction sliding_ball))) = - 180.3
   \<and> y (acceleration (groundFriction arena (beforeFriction sliding_ball))) = 600.4
   \<and> velocity (groundFriction arena (beforeFriction sliding_ball)) = \<lparr> x = 30, y = - 40 \<rparr>
   \<and> x (velocity (update 0.016 (groundFriction arena (beforeFriction sliding_ball)))) = 27.1152
   \<and> ball (gameLoop arena 16 \<lparr> ball = sliding_ball, lastTime = 0 \<rparr>) =
       checkCollisions arena (update 0.016
         (applyForce \<lparr> x = - 900, y = 0 \<rparr> (beforeFriction sliding_ball)))
   \<and> 0 < inverseMass creeping_ball
   \<and> height arena - 0.5 \<le> y (position creeping_ball) + radius creeping_ball
   \<and> \<not> 0.001 < \<bar>x (velocity creeping_ball)\<bar>
   \<and> velocity (groundFriction arena (beforeFriction creeping_ball)) = \<lparr> x = 0, y = 0 \<rparr>
   \<and> acceleration (groundFriction arena (beforeFriction creeping_ball)) = \<lparr> x = 0, y = 600 \<rparr>
   \<and> ball (gameLoop arena 16 \<lparr> ball = creeping_ball, lastTime = 0 \<rparr>) =
       checkCollisions arena (update 0.016
         ((beforeFriction creeping_ball)\<lparr>velocity := \<lparr> x = 0, y = 0 \<rparr>\<rparr>))"
proof -
  have im: "inverseMass sliding_ball = 1 / 5" "inverseMass creeping_ball = 1 / 5"
    by (simp_all add: creeping_ball_def sliding_ball_def initial_ball_def Ball_new_def
        inverseMass_def)
  have pos: "position sliding_ball = \<lparr> x = 50, y = 550 \<rparr>"
    "position creeping_ball = \<lparr> x = 50, y = 550 \<rparr>"
    by (simp_all add: creeping_ball_def sliding_ball_def)
  have rad: "radius sliding_ball = 50" "radius creeping_ball = 50"
    by (simp_all add: creeping_ball_def sliding_ball_def initial_ball_def Ball_new_def)
  have vel: "velocity sliding_ball = \<lparr> x = 30, y = - 40 \<rparr>"
    "velocity creeping_ball = \<lparr> x = 0.0005, y = 0 \<rparr>"
    by (simp_all add: creeping_ball_def sliding_ball_def)
  have dt: "frame_dt 16 \<lparr> ball = b, lastTime = 0 \<rparr> = 0.016" for b
    by (simp add: frame_dt_def)
  have s1: "0 < inverseMass (ball \<lparr> ball = sliding_ball, lastTime = 0 \<rparr>)"
    by (simp add: im)
  have s2: "height arena - 0.5 \<le> y (position (ball \<lparr> ball = sliding_ball, lastTime = 0 \<rparr>))
      + radius (ball \<lparr> ball = sliding_ball, lastTime = 0 \<rparr>)"
    by (simp add: pos rad arena_def)
  have c1: "0 < inverseMass (ball \<lparr> ball = creeping_ball, lastTime = 0 \<rparr>)"
    by (simp add: im)
  have c2: "height arena - 0.5 \<le> y (position (ball \<lparr> ball = creeping_ball, lastTime = 0 \<rparr>))
      + radius (ball \<lparr> ball = creeping_ball, lastTime = 0 \<rparr>)"
    by (simp add: pos rad arena_def)
  show ?thesis
    using ground_friction_policy [OF s1 s2, of 16] ground_friction_policy [OF c1 c2, of 16]
      before_sliding before_creeping
    by (simp add: im pos rad vel dt arena_def FRICTION_COEFF_def GRAVITY_FORCE_def)
qed

end
